theory Spec2Isabelle
  imports Complex_Main "HOL-Library.AList"
begin

section \<open>Data model of main.py\<close>

text \<open>
  A frame, a template and a matched crop are numpy arrays of shape (height, width, 3):
  a list of rows, each row a list of pixels, each pixel its three channel values.
\<close>

type_synonym pixel = "nat \<times> nat \<times> nat"
type_synonym image = "pixel list list"

definition img_h :: "image \<Rightarrow> nat" where
  "img_h img = length img"

definition img_w :: "image \<Rightarrow> nat" where
  "img_w img = (case img of [] \<Rightarrow> 0 | r # _ \<Rightarrow> length r)"

text \<open>
  The numpy slice \<open>frame[y:y + t_h, x:x + t_w]\<close> for non-negative bounds: rows
  \<open>y ..< y + t_h\<close> and columns \<open>x ..< x + t_w\<close>, cut off at the array's edge.
\<close>

definition crop :: "image \<Rightarrow> nat \<Rightarrow> nat \<Rightarrow> nat \<Rightarrow> nat \<Rightarrow> image" where
  "crop frame y x th tw = map (\<lambda>row. take tw (drop x row)) (take th (drop y frame))"

text \<open>
  One entry of \<open>cfg["buffs"]\<close>; the key \<open>file\<close> is the field \<open>file_path\<close>. The
  keys \<open>template\<close>, \<open>t_h\<close>, \<open>t_w\<close>, \<open>active\<close>, \<open>icon_data\<close> and \<open>last_seen\<close> are
  added at run time by \<open>load_templates\<close> and \<open>monitor_loop\<close>. The program reads \<open>template\<close>, \<open>active\<close> and \<open>icon_data\<close> only
  through \<open>b.get(...)\<close>, where an absent key and the values \<open>None\<close>/\<open>False\<close> behave
  alike, so an absent key is modelled by \<open>None\<close>/\<open>False\<close>. \<open>last_seen\<close> is \<open>None\<close>
  while the key is absent. \<open>t_h\<close> and \<open>t_w\<close> are read only when a template is loaded.
\<close>

record buff =
  name :: string
  file_path :: string
  refreshable :: bool
  duration :: "real option"
  template :: "image option"
  t_h :: nat
  t_w :: nat
  active :: bool
  icon_data :: "image option"
  last_seen :: "real option"

text \<open>
  The configuration dictionary. A field read with \<open>cfg.get(key, default)\<close> is an
  option: \<open>None\<close> is the absent key.
\<close>

record config =
  search_region :: "int list option"
  overlay_pos :: "int list option"
  threshold :: "real option"
  hotkeys :: "(string \<times> string) list"
  buffs :: "buff list option"

definition DEFAULT_CONFIG :: config where
  "DEFAULT_CONFIG =
     \<lparr>search_region = Some [300, 1000, 1100, 1050],
      overlay_pos = Some [100, 100],
      threshold = Some (82 / 100),
      hotkeys = [(''toggle'', ''F8''), (''select_region'', ''shift+f9''), (''quit'', ''F10'')],
      buffs = Some []\<rparr>"

datatype py_error = JSONDecodeError | TypeError | ValueError | CvError

section \<open>Region picker\<close>

text \<open>
  \<open>pick_region_via_drag\<close> keeps \<open>start\<close> and \<open>result["rect"]\<close> in its closure and
  runs the window's main loop until a handler destroys the window. The mouse and key
  events it binds are the constructors of \<open>gui_event\<close>; the coordinates are
  \<open>event.x_root\<close> and \<open>event.y_root\<close>.
\<close>

record selector =
  start :: "int \<times> int"
  rect :: "int list option"

datatype gui_event =
    ButtonPress int int
  | Motion int int
  | ButtonRelease int int
  | Escape

definition on_button_press :: "int \<Rightarrow> int \<Rightarrow> selector \<Rightarrow> selector" where
  "on_button_press x y s = s\<lparr>start := (x, y)\<rparr>"

text \<open>\<open>on_move\<close> only redraws the rubber-band rectangle on the canvas.\<close>

definition on_move :: "int \<Rightarrow> int \<Rightarrow> selector \<Rightarrow> selector" where
  "on_move x y s = s"

text \<open>
  \<open>left, right = sorted([x0, x1])\<close> and \<open>top, bottom = sorted([y0, y1])\<close>; \<open>int\<close>
  of an integer is the integer.
\<close>

definition on_button_release :: "int \<Rightarrow> int \<Rightarrow> selector \<Rightarrow> selector" where
  "on_button_release x1 y1 s =
     (let (x0, y0) = start s;
          xs = sort [x0, x1];
          ys = sort [y0, y1];
          left = xs ! 0; right = xs ! 1;
          top = ys ! 0; bottom = ys ! 1
      in s\<lparr>rect := Some [left, top, right, bottom]\<rparr>)"

definition on_esc :: "selector \<Rightarrow> selector" where
  "on_esc s = s"

text \<open>
  The main loop dispatches events until the window is destroyed, which
  \<open>on_button_release\<close> and \<open>on_esc\<close> do. An event list that runs out stands for a
  window destroyed from outside; \<open>result["rect"]\<close> is returned as it is then.
\<close>

fun mainloop :: "selector \<Rightarrow> gui_event list \<Rightarrow> selector" where
  "mainloop s [] = s"
| "mainloop s (ButtonPress x y # es) = mainloop (on_button_press x y s) es"
| "mainloop s (Motion x y # es) = mainloop (on_move x y s) es"
| "mainloop s (ButtonRelease x y # es) = on_button_release x y s"
| "mainloop s (Escape # es) = on_esc s"

definition pick_region_via_drag :: "gui_event list \<Rightarrow> int list option" where
  "pick_region_via_drag es = rect (mainloop \<lparr>start = (0, 0), rect = None\<rparr> es)"

section \<open>Settings file\<close>

text \<open>
  \<open>config.json\<close> is either missing (\<open>None\<close>), holds the JSON text of a
  configuration, or holds text that \<open>json.load\<close> cannot decode.
\<close>

datatype file_content = Json config | Undecodable

text \<open>
  \<open>json.dump\<close> raises \<open>TypeError\<close> on a value that is not a JSON value. The only such
  values this program stores in the configuration are the numpy arrays under
  \<open>template\<close> and \<open>icon_data\<close>.
\<close>

definition serialisable :: "config \<Rightarrow> bool" where
  "serialisable c =
     (case buffs c of
        None \<Rightarrow> True
      | Some bs \<Rightarrow> list_all (\<lambda>b. template b = None \<and> icon_data b = None) bs)"

text \<open>
  \<open>save_config\<close> opens the file for writing, which truncates it, and streams the
  encoder's chunks into it; a \<open>TypeError\<close> raised on the way leaves the text written
  so far, which is not a complete JSON document.
\<close>

definition save_config :: "config \<Rightarrow> file_content option \<Rightarrow> file_content option \<times> py_error option" where
  "save_config c f =
     (if serialisable c then (Some (Json c), None) else (Some Undecodable, Some TypeError))"

text \<open>The dictionary \<open>load_config\<close> builds for one PNG of the templates directory.\<close>

definition new_buff :: "string \<Rightarrow> string \<Rightarrow> buff" where
  "new_buff stem rel =
     \<lparr>name = stem, file_path = rel, refreshable = True, duration = None,
      template = None, t_h = 0, t_w = 0, active = False, icon_data = None,
      last_seen = None\<rparr>"


section \<open>Loading the templates\<close>

text \<open>
  \<open>load_templates\<close>, for one entry and for the whole list. Reading an image file is a
  parameter: \<open>imread\<close> gives \<open>None\<close> when the file does not exist or cannot be
  decoded, and the image otherwise; \<open>img.shape[:2]\<close> is its height and width.
\<close>

definition load_template :: "(string \<Rightarrow> image option) \<Rightarrow> buff \<Rightarrow> buff" where
  "load_template imread b =
     (case imread (file_path b) of
        None \<Rightarrow> b\<lparr>template := None\<rparr>
      | Some img \<Rightarrow>
          b\<lparr>template := Some img, t_h := img_h img, t_w := img_w img,
            active := False, icon_data := None, last_seen := Some 0\<rparr>)"

definition load_templates :: "(string \<Rightarrow> image option) \<Rightarrow> config \<Rightarrow> config" where
  "load_templates imread c = c\<lparr>buffs := map_option (map (load_template imread)) (buffs c)\<rparr>"

section \<open>Matching one template\<close>

text \<open>
  \<open>cv2.matchTemplate(frame, tmpl, cv2.TM_CCOEFF_NORMED)\<close> followed by
  \<open>cv2.minMaxLoc\<close> is a library routine, taken as a parameter: it returns
  \<open>max_val\<close> and \<open>max_loc = (x, y)\<close>, or raises \<open>cv2.error\<close>.
\<close>

type_synonym scorer = "image \<Rightarrow> image \<Rightarrow> py_error + (real \<times> nat \<times> nat)"

text \<open>The body of the loop over \<open>cfg["buffs"]\<close> in \<open>monitor_loop\<close>, for one entry.\<close>

definition match_buff :: "scorer \<Rightarrow> image \<Rightarrow> real \<Rightarrow> real \<Rightarrow> buff \<Rightarrow> py_error + buff" where
  "match_buff sc frame thr now b =
     (case template b of
        None \<Rightarrow> Inr (b\<lparr>active := False, icon_data := None\<rparr>)
      | Some tmpl \<Rightarrow>
          (case sc frame tmpl of
             Inl e \<Rightarrow> Inl e
           | Inr (max_val, x, y) \<Rightarrow>
               if max_val \<ge> thr
               then Inr (b\<lparr>icon_data := Some (crop frame y x (t_h b) (t_w b)),
                           active := True, last_seen := Some now\<rparr>)
               else Inr (b\<lparr>active := False, icon_data := None\<rparr>)))"


text \<open>What an observer of a record sees of a match: the flag and the crop.\<close>

definition detection_outcome :: "buff \<Rightarrow> bool \<times> image option" where
  "detection_outcome b = (active b, icon_data b)"

section \<open>Application state and hotkey handlers\<close>

text \<open>A Tk label placed on the overlay window: its image and its position.\<close>

record label =
  lbl_image :: image
  lbl_x :: int
  lbl_y :: int

text \<open>
  The local variables of a running \<open>monitor_loop\<close>: the tuple
  \<open>(left, top, right, bottom)\<close> and \<open>threshold\<close>.
\<close>

record monitor_locals =
  mon_region :: "int \<times> int \<times> int \<times> int"
  mon_threshold :: real

text \<open>
  The fields of \<open>BuffMonitorApp\<close> the handlers and loops use, with the settings
  file. \<open>monitor\<close> holds the locals of the monitor thread while it is alive;
  \<open>overlay_labels\<close> is the dictionary from names to labels, in insertion order;
  \<open>grab_log\<close> records the region of every \<open>camera.grab\<close> request.
\<close>

record app =
  cfg :: config
  running :: bool
  stop_event :: bool
  monitor :: "monitor_locals option"
  overlay_labels :: "(string \<times> label) list"
  config_file :: "file_content option"
  grab_log :: "(int \<times> int \<times> int \<times> int) list"

definition get_buffs :: "config \<Rightarrow> buff list" where
  "get_buffs c = (case buffs c of None \<Rightarrow> [] | Some bs \<Rightarrow> bs)"


definition get_search_region :: "config \<Rightarrow> int list" where
  "get_search_region c = (case search_region c of None \<Rightarrow> [300, 1000, 1100, 1050] | Some r \<Rightarrow> r)"

text \<open>
  \<open>on_select_region\<close>, given the events the picker's window receives. \<open>if rect\<close>
  is false for \<open>None\<close> and for an empty list. The handler returns the state it leaves
  and the exception it raises, if any.
\<close>

definition on_select_region :: "gui_event list \<Rightarrow> app \<Rightarrow> app \<times> py_error option" where
  "on_select_region es st =
     (case pick_region_via_drag es of
        None \<Rightarrow> (st, None)
      | Some r \<Rightarrow>
          if r = [] then (st, None)
          else (let st1 = st\<lparr>cfg := (cfg st)\<lparr>search_region := Some r\<rparr>\<rparr>
                in case save_config (cfg st1) (config_file st1) of
                     (f', e) \<Rightarrow> (st1\<lparr>config_file := f'\<rparr>, e)))"

text \<open>
  The first statements of \<open>monitor_loop\<close>: the region is read from the
  configuration and unpacked into four variables, which raises \<open>ValueError\<close> unless
  it has four items.
\<close>

definition monitor_start :: "config \<Rightarrow> py_error + monitor_locals" where
  "monitor_start c =
     (case get_search_region c of
        [l, t, r, b] \<Rightarrow>
          Inr \<lparr>mon_region = (l, t, r, b),
               mon_threshold = (case threshold c of None \<Rightarrow> 82 / 100 | Some v \<Rightarrow> v)\<rparr>
      | _ \<Rightarrow> Inl ValueError)"

text \<open>The loop of \<open>toggle_running\<close> that clears the active states.\<close>

definition clear_active_states :: "config \<Rightarrow> config" where
  "clear_active_states c =
     c\<lparr>buffs := map_option (map (\<lambda>b. b\<lparr>active := False, icon_data := None\<rparr>)) (buffs c)\<rparr>"

text \<open>
  \<open>toggle_running\<close>. Starting the thread and the thread's first statements are one
  step; a thread that raises there is dead.
\<close>

definition toggle_running :: "app \<Rightarrow> app" where
  "toggle_running st =
     (if \<not> running st
      then st\<lparr>running := True, stop_event := False,
              monitor := (case monitor_start (cfg st) of Inl e \<Rightarrow> None | Inr loc \<Rightarrow> Some loc)\<rparr>
      else st\<lparr>running := False, stop_event := True, cfg := clear_active_states (cfg st)\<rparr>)"

section \<open>Monitor loop\<close>



section \<open>Overlay loop\<close>






section \<open>Interleaving of the handlers and the loops\<close>




section \<open>Concrete inputs\<close>

text \<open>
  A frame of 2 by 2 pixels and a template of 3 by 3 pixels whose top-left corner is
  that frame; the catalog entry of the template as \<open>load_templates\<close> leaves it, and
  the same entry after a cycle that saw it at time 5.
\<close>

definition frame2 :: image where
  "frame2 = [[(10, 10, 10), (200, 200, 200)], [(200, 200, 200), (10, 10, 10)]]"

definition tmpl3 :: image where
  "tmpl3 = [[(10, 10, 10), (200, 200, 200), (90, 90, 90)],
            [(200, 200, 200), (10, 10, 10), (90, 90, 90)],
            [(90, 90, 90), (90, 90, 90), (90, 90, 90)]]"

definition shield :: buff where
  "shield = load_template (\<lambda>p. Some tmpl3) (new_buff ''shield'' ''templates/shield.png'')"

definition seen_shield :: buff where
  "seen_shield = shield\<lparr>active := True, icon_data := Some frame2, last_seen := Some 5\<rparr>"


definition loaded_app :: app where
  "loaded_app =
     \<lparr>cfg = load_templates (\<lambda>p. Some tmpl3)
              (DEFAULT_CONFIG\<lparr>buffs := Some [new_buff ''shield'' ''templates/shield.png'']\<rparr>),
      running = False, stop_event = False, monitor = None, overlay_labels = [],
      config_file = Some (Json (DEFAULT_CONFIG\<lparr>buffs := Some [new_buff ''shield'' ''templates/shield.png'']\<rparr>)),
      grab_log = []\<rparr>"

definition running_app :: app where
  "running_app =
     \<lparr>cfg = DEFAULT_CONFIG\<lparr>buffs := Some [seen_shield]\<rparr>,
      running = True, stop_event = False,
      monitor = Some \<lparr>mon_region = (300, 1000, 1100, 1050), mon_threshold = 82 / 100\<rparr>,
      overlay_labels = [], config_file = Some (Json DEFAULT_CONFIG),
      grab_log = [(300, 1000, 1100, 1050)]\<rparr>"


section \<open>Region normalisation\<close>

lemma sort_pair: "sort [a, b :: int] = [min a b, max a b]"
  by (simp add: min_def max_def)

lemma on_button_release_rect:
  "rect (on_button_release x1 y1 s) =
     Some [min (fst (start s)) x1, min (snd (start s)) y1,
           max (fst (start s)) x1, max (snd (start s)) y1]"
  by (simp add: on_button_release_def sort_pair split_beta del: sort_key_simps)

lemma mainloop_motions:
  "mainloop s (map (\<lambda>(x, y). Motion x y) ms @ es) = mainloop s es"
  by (induction ms) (auto simp: on_move_def)

lemma pick_drag:
  "pick_region_via_drag (ButtonPress x0 y0 # map (\<lambda>(x, y). Motion x y) ms @ [ButtonRelease x1 y1])
     = Some [min x0 x1, min y0 y1, max x0 x1, max y0 y1]"
  by (simp add: pick_region_via_drag_def mainloop_motions on_button_release_rect
      on_button_press_def)

text \<open>
  C5. A drag from \<open>(x0, y0)\<close> to \<open>(x1, y1)\<close>, through any mouse motions, yields the
  region of the componentwise minima and maxima; the drag with the two endpoints
  swapped yields the same region; both drags between \<open>(500, 500)\<close> and \<open>(100, 100)\<close>
  yield \<open>[100, 100, 500, 500]\<close>.
\<close>

theorem region_normalization:
  "pick_region_via_drag (ButtonPress x0 y0 # map (\<lambda>(x, y). Motion x y) ms @ [ButtonRelease x1 y1])
     = Some [min x0 x1, min y0 y1, max x0 x1, max y0 y1]
   \<and> pick_region_via_drag (ButtonPress x1 y1 # map (\<lambda>(x, y). Motion x y) ms' @ [ButtonRelease x0 y0])
     = pick_region_via_drag (ButtonPress x0 y0 # map (\<lambda>(x, y). Motion x y) ms @ [ButtonRelease x1 y1])
   \<and> pick_region_via_drag [ButtonPress 500 500, ButtonRelease 100 100] = Some [100, 100, 500, 500]
   \<and> pick_region_via_drag [ButtonPress 100 100, ButtonRelease 500 500] = Some [100, 100, 500, 500]"
proof -
  have swap: "min x1 x0 = min x0 x1" "max x1 x0 = max x0 x1"
    "min y1 y0 = min y0 y1" "max y1 y0 = max y0 y1"
    by (simp_all add: min.commute max.commute)
  have a: "pick_region_via_drag [ButtonPress 500 500, ButtonRelease 100 100] = Some [100, 100, 500, 500]"
    using pick_drag [of 500 500 "[]" 100 100] by simp
  have b: "pick_region_via_drag [ButtonPress 100 100, ButtonRelease 500 500] = Some [100, 100, 500, 500]"
    using pick_drag [of 100 100 "[]" 500 500] by simp
  show ?thesis
    by (simp only: pick_drag swap a b simp_thms)
qed

text \<open>
  C6, as stated, fails: a press and a release at the same x coordinate give a region
  whose right edge equals its left edge.
\<close>

theorem region_strict_counterexample:
  "pick_region_via_drag [ButtonPress 100 100, ButtonRelease 100 200] = Some [100, 100, 100, 200]
   \<and> \<not> ([100, 100, 100, 200 :: int] ! 2 > [100, 100, 100, 200] ! 0)"
  using pick_drag [of 100 100 "[]" 100 200] by simp

text \<open>
  C6, amended. Every region the picker produces from a press and a release satisfies
  \<open>right \<ge> left\<close> and \<open>bottom \<ge> top\<close>; \<open>right > left\<close> holds exactly when the two
  x coordinates differ, and \<open>bottom > top\<close> exactly when the two y coordinates differ.
\<close>

theorem region_weak_validity:
  "\<exists>left top right bottom.
     pick_region_via_drag (ButtonPress x0 y0 # map (\<lambda>(x, y). Motion x y) ms @ [ButtonRelease x1 y1])
       = Some [left, top, right, bottom]
     \<and> left \<le> right \<and> top \<le> bottom
     \<and> (left < right \<longleftrightarrow> x0 \<noteq> x1) \<and> (top < bottom \<longleftrightarrow> y0 \<noteq> y1)"
  by (simp only: pick_drag) auto

section \<open>Loading the settings\<close>




section \<open>Pausing\<close>

lemma toggle_off_cfg:
  "running st \<Longrightarrow> cfg (toggle_running st) = clear_active_states (cfg st)"
  by (simp add: toggle_running_def)


lemma get_buffs_clear:
  "get_buffs (clear_active_states c) = map (\<lambda>b. b\<lparr>active := False, icon_data := None\<rparr>) (get_buffs c)"
  by (cases "buffs c") (simp_all add: get_buffs_def clear_active_states_def)



lemma shield_simps:
  "template shield = Some tmpl3" "t_h shield = 3" "t_w shield = 3"
  "active shield = False" "icon_data shield = None" "last_seen shield = Some 0"
  "name shield = ''shield''"
  by (simp_all add: shield_def load_template_def new_buff_def img_h_def img_w_def tmpl3_def)

lemma running_app_simps:
  "running running_app" "get_buffs (cfg running_app) = [seen_shield]"
  by (simp_all add: running_app_def get_buffs_def)



section \<open>The match of one template\<close>

lemma crop_frame2: "crop frame2 0 0 3 3 = frame2"
  by (simp add: crop_def frame2_def)



lemma match_buff_inactive:
  assumes "match_buff sc frame thr now b = Inr b'" "\<not> active b'"
  shows "b' = b\<lparr>active := False, icon_data := None\<rparr>"
  using assms
  by (auto simp: match_buff_def split: option.splits sum.splits if_splits)

lemma match_shield_hit:
  "thr \<le> 1 \<Longrightarrow>
     match_buff (\<lambda>f t. Inr (1, 0, 0)) frame2 thr now shield
       = Inr (shield\<lparr>icon_data := Some frame2, active := True, last_seen := Some now\<rparr>)"
  by (simp add: match_buff_def shield_simps crop_frame2)

lemma match_seen_shield_hit:
  "thr \<le> 1 \<Longrightarrow>
     map_sum id detection_outcome (match_buff (\<lambda>f t. Inr (1, 0, 0)) frame2 thr now seen_shield)
       = Inr (True, Some frame2)"
  by (simp add: match_buff_def seen_shield_def shield_simps crop_frame2 detection_outcome_def)




text \<open>
  C9. With the scorer a function of the frame and the template, the outcome of a match
  (the flag and the crop, or the exception) is determined by the frame, the template
  with its recorded height and width, and the threshold: two evaluations agree
  whatever the clock reads and whatever the record held before.
\<close>

theorem match_deterministic:
  assumes "template b1 = template b2" "t_h b1 = t_h b2" "t_w b1 = t_w b2"
  shows "map_sum id detection_outcome (match_buff sc frame thr now1 b1)
       = map_sum id detection_outcome (match_buff sc frame thr now2 b2)"
  using assms
  by (auto simp: match_buff_def detection_outcome_def split: option.splits sum.splits)

theorem match_deterministic_witness:
  "template shield = template seen_shield \<and> t_h shield = t_h seen_shield
   \<and> t_w shield = t_w seen_shield
   \<and> map_sum id detection_outcome (match_buff (\<lambda>f t. Inr (1, 0, 0)) frame2 (82 / 100) 7 shield)
       = Inr (True, Some frame2)
   \<and> map_sum id detection_outcome (match_buff (\<lambda>f t. Inr (1, 0, 0)) frame2 (82 / 100) 9 seen_shield)
       = Inr (True, Some frame2)"
proof -
  have a: "template shield = template seen_shield" "t_h shield = t_h seen_shield"
    "t_w shield = t_w seen_shield"
    by (simp_all add: seen_shield_def)
  from match_deterministic [OF a, of "\<lambda>f t. Inr (1, 0, 0)" frame2 "82 / 100" 7 9] a
  show ?thesis
    by (simp add: match_shield_hit match_seen_shield_hit detection_outcome_def)
qed

lemma match_seen_shield_miss:
  "match_buff (\<lambda>f t. Inr (1 / 2, 0, 0)) frame2 (82 / 100) 9 seen_shield
     = Inr (seen_shield\<lparr>active := False, icon_data := None\<rparr>)"
  by (simp add: match_buff_def seen_shield_def shield_simps)

text \<open>
  C10. A match that leaves a record inactive, and the clear of a toggle while running,
  change nothing of a record but the flag and the crop; \<open>last_seen\<close> keeps its value.
\<close>

theorem deactivation_keeps_last_seen:
  "(match_buff sc frame thr now b = Inr b' \<and> \<not> active b' \<longrightarrow>
      b' = b\<lparr>active := False, icon_data := None\<rparr> \<and> last_seen b' = last_seen b)
   \<and> (running st \<longrightarrow>
        get_buffs (cfg (toggle_running st))
          = map (\<lambda>b. b\<lparr>active := False, icon_data := None\<rparr>) (get_buffs (cfg st))
        \<and> map last_seen (get_buffs (cfg (toggle_running st))) = map last_seen (get_buffs (cfg st)))"
proof -
  have "b' = b\<lparr>active := False, icon_data := None\<rparr> \<and> last_seen b' = last_seen b"
    if "match_buff sc frame thr now b = Inr b'" "\<not> active b'"
    using match_buff_inactive [OF that] by simp
  moreover have "get_buffs (cfg (toggle_running st))
          = map (\<lambda>b. b\<lparr>active := False, icon_data := None\<rparr>) (get_buffs (cfg st))
        \<and> map last_seen (get_buffs (cfg (toggle_running st))) = map last_seen (get_buffs (cfg st))"
    if "running st"
    using that by (simp add: toggle_off_cfg get_buffs_clear comp_def)
  ultimately show ?thesis by blast
qed

theorem deactivation_keeps_last_seen_witness:
  "match_buff (\<lambda>f t. Inr (1 / 2, 0, 0)) frame2 (82 / 100) 9 seen_shield
     = Inr (seen_shield\<lparr>active := False, icon_data := None\<rparr>)
   \<and> \<not> active (seen_shield\<lparr>active := False, icon_data := None\<rparr>)
   \<and> last_seen seen_shield = Some 5
   \<and> last_seen (seen_shield\<lparr>active := False, icon_data := None\<rparr>) = Some 5
   \<and> running running_app
   \<and> map last_seen (get_buffs (cfg running_app)) = [Some 5]
   \<and> map last_seen (get_buffs (cfg (toggle_running running_app))) = [Some 5]"
proof -
  have l: "last_seen seen_shield = Some 5" by (simp add: seen_shield_def)
  have r: "running running_app" by (rule running_app_simps)
  from deactivation_keeps_last_seen [of "\<lambda>f t. Inr (1 / 2, 0, 0)" frame2 "82 / 100" 9
      seen_shield "seen_shield\<lparr>active := False, icon_data := None\<rparr>" running_app]
    match_seen_shield_miss r
  have "last_seen (seen_shield\<lparr>active := False, icon_data := None\<rparr>) = last_seen seen_shield"
    and "map last_seen (get_buffs (cfg (toggle_running running_app)))
          = map last_seen (get_buffs (cfg running_app))"
    by simp_all
  with l r match_seen_shield_miss show ?thesis
    by (simp add: running_app_simps)
qed

section \<open>Selecting a region\<close>

lemma select_cancel:
  "pick_region_via_drag es = None \<Longrightarrow> on_select_region es st = (st, None)"
  by (simp add: on_select_region_def)

lemma pick_escape:
  "pick_region_via_drag (ButtonPress x0 y0 # map (\<lambda>(x, y). Motion x y) ms @ [Escape]) = None"
  by (simp add: pick_region_via_drag_def mainloop_motions on_esc_def on_button_press_def)

text \<open>A gesture ended by Escape leaves the configuration and the settings file as they were.\<close>

lemma select_escape:
  "on_select_region (ButtonPress x0 y0 # map (\<lambda>(x, y). Motion x y) ms @ [Escape]) st = (st, None)"
  by (rule select_cancel [OF pick_escape])

text \<open>
  A completed gesture stores the region in the configuration; the settings file
  receives the configuration when it can be serialised, and is left undecodable, with
  \<open>TypeError\<close> raised, when it cannot.
\<close>

lemma select_success:
  "pick_region_via_drag es = Some r \<Longrightarrow> r \<noteq> [] \<Longrightarrow>
     cfg (fst (on_select_region es st)) = (cfg st)\<lparr>search_region := Some r\<rparr>
     \<and> (serialisable (cfg st) \<longrightarrow>
          on_select_region es st =
            (st\<lparr>cfg := (cfg st)\<lparr>search_region := Some r\<rparr>,
                config_file := Some (Json ((cfg st)\<lparr>search_region := Some r\<rparr>))\<rparr>, None))
     \<and> (\<not> serialisable (cfg st) \<longrightarrow>
          on_select_region es st =
            (st\<lparr>cfg := (cfg st)\<lparr>search_region := Some r\<rparr>, config_file := Some Undecodable\<rparr>,
             Some TypeError))"
  by (simp add: on_select_region_def save_config_def Let_def serialisable_def)

text \<open>
  C7. The cancel half holds (\<open>select_escape\<close>). The other half fails on the code: after
  start-up with one template loaded, a completed drag from \<open>(100, 100)\<close> to
  \<open>(500, 500)\<close> stores the region in the configuration in memory, but \<open>save_config\<close>
  raises \<open>TypeError\<close> on the template's array and leaves the settings file
  undecodable, so the region is not persisted.
\<close>

theorem select_region_not_persisted:
  "pick_region_via_drag [ButtonPress 100 100, ButtonRelease 500 500] = Some [100, 100, 500, 500]
   \<and> get_buffs (cfg loaded_app) = [shield]
   \<and> snd (on_select_region [ButtonPress 100 100, ButtonRelease 500 500] loaded_app) = Some TypeError
   \<and> search_region (cfg (fst (on_select_region [ButtonPress 100 100, ButtonRelease 500 500] loaded_app)))
       = Some [100, 100, 500, 500]
   \<and> config_file (fst (on_select_region [ButtonPress 100 100, ButtonRelease 500 500] loaded_app))
       = Some Undecodable"
proof -
  have p: "pick_region_via_drag [ButtonPress 100 100, ButtonRelease 500 500] = Some [100, 100, 500, 500]"
    using pick_drag [of 100 100 "[]" 500 500] by simp
  have g: "get_buffs (cfg loaded_app) = [shield]"
    by (simp add: loaded_app_def load_templates_def get_buffs_def shield_def)
  have n: "\<not> serialisable (cfg loaded_app)"
    by (simp add: serialisable_def loaded_app_def load_templates_def load_template_def)
  from select_success [OF p, of loaded_app] n p g show ?thesis by simp
qed

section \<open>The region of a run\<close>











section \<open>Placing the labels\<close>






end
